theory Spec2Isabelle
  imports Complex_Main
begin

section \<open>The dask-worker launcher: \<open>distributed/cli/dask_worker.py\<close>\<close>

text \<open>
  The launcher parses its options, builds the worker or nanny instances, waits for them
  (or for the lifetime to elapse) and tears them down. Every raise and every \<open>exit\<close> of
  the source is a value of \<open>error\<close>; effects (log lines, constructor calls, RPCs, process
  signals) are recorded as a list of \<open>event\<close>s in the order the source performs them.
\<close>

subsection \<open>Exceptions\<close>

datatype error =
    SystemExit int
  | ValueError string
  | KeyError string
  | ZeroDivisionError
  | IndexError
  | TimeoutError
  | OSError
  | IOError
  | TypeError
  | OtherError string

subsection \<open>Strings: \<open>str.replace\<close>, \<open>str.split\<close>\<close>

text \<open>\<open>s.replace(',', ' ')\<close>: every comma becomes one space.\<close>

definition replace_commas :: "string \<Rightarrow> string" where
  "replace_commas s = map (\<lambda>c. if c = CHR '','' then CHR '' '' else c) s"

text \<open>
  A \<open>char\<close> is a code point below 256 of a Python 3 \<open>str\<close>. Of these, \<open>str.split()\<close>
  (and \<open>str.isspace\<close>) treats as whitespace: tab, line feed, vertical tab, form feed,
  carriage return, the four separators \<open>0x1C..0x1F\<close>, space, next line (\<open>0x85\<close>) and
  no-break space (\<open>0xA0\<close>).
\<close>

definition isspace :: "char \<Rightarrow> bool" where
  "isspace c = (c = CHR 0x09 \<or> c = CHR 0x0A \<or> c = CHR 0x0B \<or> c = CHR 0x0C \<or> c = CHR 0x0D
      \<or> c = CHR 0x1C \<or> c = CHR 0x1D \<or> c = CHR 0x1E \<or> c = CHR 0x1F \<or> c = CHR 0x20
      \<or> c = CHR 0x85 \<or> c = CHR 0xA0)"

definition nonspace :: "char \<Rightarrow> bool" where
  "nonspace c = (\<not> isspace c)"

text \<open>\<open>s.split()\<close>: the maximal runs of non-whitespace characters, in order.\<close>

function split :: "string \<Rightarrow> string list" where
  "split [] = []"
| "split (c # cs) =
     (if isspace c then split cs
      else (c # takeWhile nonspace cs) # split (dropWhile nonspace cs))"
  by pat_completeness auto
termination
  by (relation "measure length") (auto simp: less_Suc_eq_le length_dropWhile_le)

text \<open>
  \<open>s.split(sep)\<close> for a one-character separator: the pieces between the separators,
  empty pieces included, so the result is never empty.
\<close>

fun split_on :: "char \<Rightarrow> string \<Rightarrow> string list" where
  "split_on sep [] = [[]]"
| "split_on sep (c # cs) =
     (if c = sep then [] # split_on sep cs
      else (case split_on sep cs of
              [] \<Rightarrow> [[c]]
            | t # ts \<Rightarrow> (c # t) # ts))"

subsection \<open>Dictionaries\<close>

text \<open>
  A \<open>dict\<close> is an association list with distinct keys, in insertion order. Storing under
  a key that is present replaces its value in place; a new key goes to the end.
\<close>

type_synonym ('k, 'v) dict = "('k \<times> 'v) list"

fun setitem :: "('k, 'v) dict \<Rightarrow> 'k \<Rightarrow> 'v \<Rightarrow> ('k, 'v) dict" where
  "setitem [] k v = [(k, v)]"
| "setitem ((k', v') # d) k v =
     (if k' = k then (k', v) # d else (k', v') # setitem d k v)"

text \<open>
  \<open>dict(pair.split('=') for pair in tokens)\<close>: each element must be a sequence of
  exactly two items, otherwise \<open>dict\<close> raises \<open>ValueError\<close>. The first argument is the
  dictionary built so far.
\<close>

fun dict_of :: "(string, string) dict \<Rightarrow> string list list \<Rightarrow> error + (string, string) dict" where
  "dict_of d [] = Inr d"
| "dict_of d (p # ps) =
     (case p of
        [k, v] \<Rightarrow> dict_of (setitem d k v) ps
      | _ \<Rightarrow> Inl (ValueError ''dictionary update sequence element has the wrong length; 2 is required''))"

text \<open>
  \<open>float\<close> is Python's builtin; the parsers take it as a parameter. On a string it
  either returns a number or raises \<open>ValueError\<close>, which is \<open>None\<close> here. Numbers are
  modelled as reals: rounding to binary64 is outside the model.
\<close>

type_synonym pyfloat = "string \<Rightarrow> real option"

text \<open>\<open>toolz.valmap(float, d)\<close>: \<open>float\<close> applied to every value, in order.\<close>

fun valmap :: "pyfloat \<Rightarrow> (string, string) dict \<Rightarrow> error + (string, real) dict" where
  "valmap float [] = Inr []"
| "valmap float ((k, v) # d) =
     (case float v of
        None \<Rightarrow> Inl (ValueError (''could not convert string to float: '' @ v))
      | Some x \<Rightarrow> (case valmap float d of Inl e \<Rightarrow> Inl e | Inr d' \<Rightarrow> Inr ((k, x) # d')))"

text \<open>The tokens of an option string and the dictionary of its \<open>key=value\<close> pairs.\<close>

definition tokens :: "string \<Rightarrow> string list" where
  "tokens s = split (replace_commas s)"

definition pairs_dict :: "pyfloat \<Rightarrow> string \<Rightarrow> error + (string, real) dict" where
  "pairs_dict float s =
     (case dict_of [] (map (split_on CHR ''='') (tokens s)) of
        Inl e \<Rightarrow> Inl e
      | Inr d \<Rightarrow> valmap float d)"

subsection \<open>The \<open>--resources\<close> option (lines 121-126)\<close>

definition parse_resources :: "pyfloat \<Rightarrow> string \<Rightarrow> error + (string, real) dict option" where
  "parse_resources float s =
     (if s \<noteq> [] then
        (case pairs_dict float s of Inl e \<Rightarrow> Inl e | Inr d \<Rightarrow> Inr (Some d))
      else Inr None)"

subsection \<open>The \<open>--lifetime\<close> option (lines 128-140)\<close>

definition to_secs :: "(string, real) dict" where
  "to_secs =
     [(''d'', 86400), (''days'', 86400),
      (''h'', 3600), (''hours'', 3600),
      (''m'', 60), (''mins'', 60), (''minutes'', 60),
      (''s'', 1), (''secs'', 1), (''seconds'', 1)]"

text \<open>
  \<open>sum(to_secs[key] * val for key, val in lifetime.items())\<close>: a running total from 0,
  in the order of the items; a key that is not in the table raises \<open>KeyError\<close>.
\<close>

fun sum_secs :: "real \<Rightarrow> (string, real) dict \<Rightarrow> error + real" where
  "sum_secs acc [] = Inr acc"
| "sum_secs acc ((k, v) # d) =
     (case map_of to_secs k of
        None \<Rightarrow> Inl (KeyError k)
      | Some f \<Rightarrow> sum_secs (acc + f * v) d)"

definition lifetime_msg :: string where
  "lifetime_msg = ''Lifetime specifier not understood, see --help for the proper format.''"

text \<open>The body of the \<open>try\<close> block.\<close>

definition lifetime_try :: "pyfloat \<Rightarrow> string \<Rightarrow> error + real" where
  "lifetime_try float s =
     (case pairs_dict float s of Inl e \<Rightarrow> Inl e | Inr d \<Rightarrow> sum_secs 0 d)"

text \<open>\<open>except (KeyError, ValueError): raise ValueError(...)\<close>; anything else passes.\<close>

fun lifetime_except :: "error \<Rightarrow> error" where
  "lifetime_except (KeyError k) = ValueError lifetime_msg"
| "lifetime_except (ValueError m) = ValueError lifetime_msg"
| "lifetime_except e = e"

text \<open>
  The option is left as it is (the empty string, \<open>None\<close> here) when it is empty, and is
  replaced by the number of seconds otherwise.
\<close>

definition parse_lifetime :: "pyfloat \<Rightarrow> string \<Rightarrow> error + real option" where
  "parse_lifetime float s =
     (if s \<noteq> [] then
        (case lifetime_try float s of
           Inl e \<Rightarrow> Inl (lifetime_except e)
         | Inr x \<Rightarrow> Inr (Some x))
      else Inr None)"

subsection \<open>Decimal literals\<close>

text \<open>
  The value of \<open>float\<close> on a plain decimal literal: an optional sign, digits with an
  optional fraction, an optional exponent. It stands for the builtin at the concrete
  inputs below; \<open>inf\<close>, \<open>nan\<close> and digit-group underscores are not literals of this form.
\<close>

definition digit_of :: "char \<Rightarrow> nat option" where
  "digit_of =
     map_of [(CHR ''0'', 0), (CHR ''1'', 1), (CHR ''2'', 2), (CHR ''3'', 3), (CHR ''4'', 4),
             (CHR ''5'', 5), (CHR ''6'', 6), (CHR ''7'', 7), (CHR ''8'', 8), (CHR ''9'', 9)]"

definition isdigit :: "char \<Rightarrow> bool" where
  "isdigit c = (digit_of c \<noteq> None)"

fun digits_value :: "nat \<Rightarrow> string \<Rightarrow> nat" where
  "digits_value acc [] = acc"
| "digits_value acc (c # cs) =
     digits_value (acc * 10 + (case digit_of c of None \<Rightarrow> 0 | Some d \<Rightarrow> d)) cs"

definition take_sign :: "string \<Rightarrow> bool \<times> string" where
  "take_sign s =
     (case s of
        [] \<Rightarrow> (False, s)
      | c # cs \<Rightarrow> if c = CHR ''-'' then (True, cs)
                 else if c = CHR ''+'' then (False, cs) else (False, s))"

definition take_fraction :: "string \<Rightarrow> string \<times> string" where
  "take_fraction s =
     (case s of
        [] \<Rightarrow> ([], s)
      | c # cs \<Rightarrow> if c = CHR ''.'' then (takeWhile isdigit cs, dropWhile isdigit cs)
                 else ([], s))"

definition scale10 :: "bool \<Rightarrow> nat \<Rightarrow> real \<Rightarrow> real" where
  "scale10 neg e x = (if neg then x / 10 ^ e else x * 10 ^ e)"

definition float_lit :: pyfloat where
  "float_lit s =
     (let (neg, r0) = take_sign s;
          ip = takeWhile isdigit r0;
          (fp, r2) = take_fraction (dropWhile isdigit r0);
          mant = real (digits_value 0 (ip @ fp)) / 10 ^ length fp;
          x = (if neg then - mant else mant)
      in if ip = [] \<and> fp = [] then None
         else (case r2 of
                 [] \<Rightarrow> Some x
               | c # cs \<Rightarrow>
                   if c = CHR ''e'' \<or> c = CHR ''E'' then
                     (let (eneg, ds) = take_sign cs
                      in if ds \<noteq> [] \<and> list_all isdigit ds
                         then Some (scale10 eneg (digits_value 0 ds) x) else None)
                   else None))"

subsection \<open>The command line (lines 45-85)\<close>

record args =
  scheduler :: string
  host :: "string option"
  worker_port :: int
  http_port :: int
  nanny_port :: int
  nthreads :: int
  nprocs :: int
  nanny :: bool
  name :: string
  memory_limit :: string
  pid_file :: string
  temp_filename :: "string option"
  reconnect :: bool
  resources :: string
  lifetime :: string
  bokeh :: bool
  bokeh_port :: int
  local_directory :: string

text \<open>The defaults of the \<open>click\<close> options, for a given scheduler address.\<close>

definition default_args :: "string \<Rightarrow> args" where
  "default_args sched =
     \<lparr>scheduler = sched, host = None, worker_port = 0, http_port = 0, nanny_port = 0,
      nthreads = 0, nprocs = 1, nanny = True, name = [], memory_limit = ''auto'',
      pid_file = [], temp_filename = None, reconnect = True, resources = [],
      lifetime = [], bokeh = True, bokeh_port = 8789, local_directory = []\<rparr>"

subsection \<open>Effects\<close>

datatype cls = Nanny | Worker

datatype service = HTTPWorker | BokehWorker

datatype kwarg = WorkerPortArg int | ServicePortsArg "(string \<times> int) list"

text \<open>One call \<open>t(scheduler, ncores=..., services=..., ...)\<close> of line 154.\<close>

record ctor =
  ctor_cls :: cls
  ctor_scheduler :: string
  ncores :: int
  services :: "((string \<times> int) \<times> service) list"
  ctor_name :: string
  ctor_resources :: "(string, real) dict option"
  ctor_memory_limit :: string
  ctor_reconnect :: bool
  local_dir :: string
  kwargs :: "(string \<times> kwarg) list"

datatype endpoint = HostPort string int | Port int

datatype callback = ReadyFile string | Retire real | LoopStop

datatype event =
    LogError string
  | LogInfo string
  | WritePid string
  | AtexitRegister string
  | Construct ctor
  | Start nat endpoint
  | GlobalNanniesAppend nat
  | AddCallback callback
  | Sleep real
  | RetireWorkers "string option list" bool
  | SetRetired
  | LoopClose
  | NewLoop
  | UnregisterAll real "(string option \<times> bool) list"
  | Terminate nat
  | Stop nat
  | Rmtree "string option"

subsection \<open>\<open>main\<close>, up to the start of the instances (lines 86-196)\<close>

definition port :: "args \<Rightarrow> int" where
  "port a = (if nanny a then nanny_port a else worker_port a)"

text \<open>The two checks of lines 91-97: the message logged by the one that fails.\<close>

definition validate :: "args \<Rightarrow> string option" where
  "validate a =
     (if nprocs a > 1 \<and> worker_port a \<noteq> 0 then
        Some ''Failed to launch worker.  You cannot use the --port argument when nprocs > 1.''
      else if nprocs a > 1 \<and> name a \<noteq> [] then
        Some ''Failed to launch worker.  You cannot use the --name argument when nprocs > 1.''
      else None)"

text \<open>
  Lines 99-100. \<open>worker_ncores\<close> is \<open>distributed.worker._ncores\<close>, the number of cores
  of the machine; \<open>//\<close> is floor division and raises on a zero divisor.
\<close>

definition default_nthreads :: "int \<Rightarrow> args \<Rightarrow> error + int" where
  "default_nthreads worker_ncores a =
     (if nthreads a = 0 then
        (if nprocs a = 0 then Inl ZeroDivisionError else Inr (worker_ncores div nprocs a))
      else Inr (nthreads a))"

text \<open>Lines 102-109; the write of the file is taken to succeed.\<close>

definition pid_events :: "args \<Rightarrow> event list" where
  "pid_events a =
     (if pid_file a \<noteq> [] then [WritePid (pid_file a), AtexitRegister (pid_file a)] else [])"

text \<open>Lines 111-119; \<open>bokeh_importable\<close> says whether the import of line 115 succeeds.\<close>

definition make_services :: "bool \<Rightarrow> args \<Rightarrow> ((string \<times> int) \<times> service) list" where
  "make_services bokeh_importable a =
     ((''http'', http_port a), HTTPWorker) #
     (if bokeh a \<and> bokeh_importable then [((''bokeh'', bokeh_port a), BokehWorker)] else [])"

text \<open>Lines 145-152.\<close>

definition make_kwargs :: "args \<Rightarrow> (string \<times> kwarg) list" where
  "make_kwargs a =
     (if nanny a then [(''worker_port'', WorkerPortArg (worker_port a))]
      else if nanny_port a \<noteq> 0 then
        [(''service_ports'', ServicePortsArg [(''nanny'', nanny_port a)])]
      else [])"

definition make_ctor ::
  "bool \<Rightarrow> args \<Rightarrow> int \<Rightarrow> (string, real) dict option \<Rightarrow> ctor" where
  "make_ctor bokeh_importable a nt res =
     \<lparr>ctor_cls = (if nanny a then Nanny else Worker),
      ctor_scheduler = scheduler a,
      ncores = nt,
      services = make_services bokeh_importable a,
      ctor_name = name a,
      ctor_resources = res,
      ctor_memory_limit = memory_limit a,
      ctor_reconnect = reconnect a,
      local_dir = local_directory a,
      kwargs = make_kwargs a\<rparr>"

text \<open>Lines 154-158: one constructor call for each \<open>i\<close> in \<open>range(nprocs)\<close>.\<close>

definition construct_events ::
  "bool \<Rightarrow> args \<Rightarrow> int \<Rightarrow> (string, real) dict option \<Rightarrow> event list" where
  "construct_events bokeh_importable a nt res =
     replicate (nat (nprocs a)) (Construct (make_ctor bokeh_importable a nt res))"

text \<open>Lines 160-166; a host that is \<open>None\<close> or empty is false.\<close>

definition start_endpoint :: "args \<Rightarrow> endpoint" where
  "start_endpoint a =
     (case host a of
        None \<Rightarrow> Port (port a)
      | Some h \<Rightarrow> if h \<noteq> [] then HostPort h (port a) else Port (port a))"

definition start_one :: "args \<Rightarrow> nat \<Rightarrow> event list" where
  "start_one a i =
     Start i (start_endpoint a) # (if nanny a then [GlobalNanniesAppend i] else [])"

definition start_events :: "args \<Rightarrow> event list" where
  "start_events a = concat (map (start_one a) [0 ..< nat (nprocs a)])"

text \<open>Lines 168-178 and 182-196: the two callbacks, each under its own test.\<close>

definition callback_events :: "args \<Rightarrow> real option \<Rightarrow> event list" where
  "callback_events a lt =
     (case temp_filename a of
        None \<Rightarrow> []
      | Some f \<Rightarrow> if f \<noteq> [] then [AddCallback (ReadyFile f)] else []) @
     (case lt of
        None \<Rightarrow> []
      | Some x \<Rightarrow> if x \<noteq> 0 then [AddCallback (Retire x)] else [])"

text \<open>
  The events of \<open>main\<close> up to line 196, and the exception that ends it there, if any.
  \<open>exit(1)\<close> is \<open>SystemExit 1\<close>.
\<close>

definition main_startup :: "pyfloat \<Rightarrow> int \<Rightarrow> bool \<Rightarrow> args \<Rightarrow> event list \<times> error option" where
  "main_startup float worker_ncores bokeh_importable a =
     (case validate a of
        Some msg \<Rightarrow> ([LogError msg], Some (SystemExit 1))
      | None \<Rightarrow>
          (case default_nthreads worker_ncores a of
             Inl e \<Rightarrow> ([], Some e)
           | Inr nt \<Rightarrow>
               (case parse_resources float (resources a) of
                  Inl e \<Rightarrow> (pid_events a, Some e)
                | Inr res \<Rightarrow>
                    (case parse_lifetime float (lifetime a) of
                       Inl e \<Rightarrow> (pid_events a, Some e)
                     | Inr lt \<Rightarrow>
                         (pid_events a
                            @ construct_events bokeh_importable a nt res
                            @ start_events a
                            @ callback_events a lt,
                          None)))))"

text \<open>The constructor calls among a list of events.\<close>

fun constructed :: "event list \<Rightarrow> ctor list" where
  "constructed [] = []"
| "constructed (Construct c # evs) = c # constructed evs"
| "constructed (e # evs) = constructed evs"

subsection \<open>The running instances\<close>

text \<open>
  What the rest of \<open>main\<close> reads of an instance: its \<open>status\<close>, whether \<open>n.process\<close> is
  true (a process handle rather than \<open>None\<close>), the result of \<open>isalive(n.process)\<close>
  (\<open>isalive\<close> is a helper of \<open>distributed.nanny\<close>, taken as given), the worker's port and
  address, the instance's own address and its working directory.
\<close>

record node =
  status :: string
  process :: bool
  isalive_process :: bool
  node_worker_port :: "int option"
  worker_address :: "string option"
  address :: "string option"
  worker_dir :: "string option"

definition true_port :: "int option \<Rightarrow> bool" where
  "true_port p = (case p of None \<Rightarrow> False | Some x \<Rightarrow> x \<noteq> 0)"

definition true_str :: "string option \<Rightarrow> bool" where
  "true_str a = (case a of None \<Rightarrow> False | Some x \<Rightarrow> x \<noteq> [])"

subsection \<open>Retirement (lines 180-201)\<close>

definition retire_targets :: "bool \<Rightarrow> node list \<Rightarrow> string option list" where
  "retire_targets nanny_flag nannies =
     (if nanny_flag then
        map worker_address
          (filter (\<lambda>n. process n \<and> true_port (node_worker_port n)) nannies)
      else map address nannies)"

text \<open>
  The coroutine \<open>retire\<close>, run once the loop reaches it: its events, the value of
  \<open>retired[0]\<close> afterwards (given the value before) and the exception that ends it, if
  any. \<open>nannies[0]\<close> raises on an empty list.
\<close>

definition retire :: "bool \<Rightarrow> node list \<Rightarrow> real \<Rightarrow> bool \<Rightarrow> event list \<times> bool \<times> error option" where
  "retire nanny_flag nannies lt retired =
     (case nannies of
        [] \<Rightarrow> ([Sleep lt, LogInfo ''Retiring worker...''], retired, Some IndexError)
      | n0 # ns \<Rightarrow>
          ([Sleep lt, LogInfo ''Retiring worker...'',
            RetireWorkers (retire_targets nanny_flag nannies) False,
            SetRetired, LogInfo ''Worker retired''],
           True, None))"

text \<open>The condition of the loop of \<open>run\<close> (line 200).\<close>

definition run_continue :: "node list \<Rightarrow> bool \<Rightarrow> bool" where
  "run_continue nannies retired =
     (list_all (\<lambda>n. status n \<noteq> ''closed'') nannies \<and> \<not> retired)"

text \<open>
  The loop of \<open>run\<close>: \<open>nannies_at k\<close> and \<open>retired_at k\<close> are the instances and the flag
  as the condition finds them after \<open>k\<close> sleeps of 0.2 seconds. The result is the number
  of sleeps; a loop that never ends has none.
\<close>

partial_function (option) run :: "(nat \<Rightarrow> node list) \<Rightarrow> (nat \<Rightarrow> bool) \<Rightarrow> nat \<Rightarrow> nat option" where
  "run nannies_at retired_at k =
     (if run_continue (nannies_at k) (retired_at k)
      then run nannies_at retired_at (Suc k) else Some k)"

subsection \<open>The signal handler (lines 32-42)\<close>

text \<open>
  \<open>rmtree i d\<close> is what the \<open>i\<close>-th call \<open>shutil.rmtree(d)\<close> raises, if anything. The
  handler passes over \<open>OSError\<close>, \<open>IOError\<close> and \<open>TypeError\<close>; any other exception ends it.
\<close>

fun swallowed :: "error \<Rightarrow> bool" where
  "swallowed OSError = True"
| "swallowed IOError = True"
| "swallowed TypeError = True"
| "swallowed e = False"

fun rmtree_all ::
  "(nat \<Rightarrow> string option \<Rightarrow> error option) \<Rightarrow> nat \<Rightarrow> string option list \<Rightarrow> event list \<times> error option" where
  "rmtree_all rmtree i [] = ([], None)"
| "rmtree_all rmtree i (d # ds) =
     (case rmtree i d of
        None \<Rightarrow> (case rmtree_all rmtree (Suc i) ds of (evs, r) \<Rightarrow> (Rmtree d # evs, r))
      | Some e \<Rightarrow>
          if swallowed e
          then (case rmtree_all rmtree (Suc i) ds of (evs, r) \<Rightarrow> (Rmtree d # evs, r))
          else ([Rmtree d], Some e))"

definition handle_signal ::
  "(nat \<Rightarrow> string option \<Rightarrow> error option) \<Rightarrow> bool \<Rightarrow> node list \<Rightarrow> event list \<times> error option" where
  "handle_signal rmtree loop_running global_nannies =
     (case rmtree_all rmtree 0 (map worker_dir global_nannies) of
        (evs, Some e) \<Rightarrow> (evs, Some e)
      | (evs, None) \<Rightarrow>
          if loop_running then (evs @ [AddCallback LoopStop], None)
          else (evs, Some (SystemExit 1)))"

subsection \<open>Teardown (lines 207-238)\<close>

text \<open>
  How the unregistration ends: all the calls return within the bound, or the bound of
  \<open>gen.with_timeout\<close> elapses first, which raises \<open>TimeoutError\<close> in the coroutine.
\<close>

datatype rpc_outcome = Completed | TimedOut

definition unregister_calls :: "node list \<Rightarrow> (string option \<times> bool) list" where
  "unregister_calls nannies =
     map (\<lambda>n. (worker_address n, True))
       (filter (\<lambda>n. process n \<and> true_str (worker_address n)) nannies)"

text \<open>
  Lines 213-224: the coroutine \<open>f\<close> on the new loop; \<open>run_sync\<close> raises what \<open>f\<close> raises,
  and nothing around it catches.
\<close>

definition unregister_all :: "bool \<Rightarrow> node list \<Rightarrow> rpc_outcome \<Rightarrow> event list \<times> error option" where
  "unregister_all nanny_flag nannies outcome =
     (case nannies of
        [] \<Rightarrow> ([NewLoop], Some IndexError)
      | n0 # ns \<Rightarrow>
          if nanny_flag then
            ([NewLoop, UnregisterAll 2 (unregister_calls nannies)],
             (case outcome of Completed \<Rightarrow> None | TimedOut \<Rightarrow> Some TimeoutError))
          else ([NewLoop], None))"

text \<open>Lines 226-229.\<close>

fun terminate_events :: "nat \<Rightarrow> node list \<Rightarrow> event list" where
  "terminate_events i [] = []"
| "terminate_events i (n # ns) =
     (if isalive_process n then [Terminate i] else []) @ terminate_events (Suc i) ns"

text \<open>
  Lines 231-235. \<open>any_alive k\<close> is the value of \<open>any(isalive(n.process) for n in nannies)\<close>
  and \<open>time k\<close> the reading of the clock when the condition is evaluated after \<open>k\<close> sleeps;
  \<open>start\<close> is the reading of line 232. The result is the number of sleeps.
\<close>

partial_function (option) wait_children ::
  "(nat \<Rightarrow> bool) \<Rightarrow> (nat \<Rightarrow> real) \<Rightarrow> real \<Rightarrow> nat \<Rightarrow> nat option" where
  "wait_children any_alive time start k =
     (if any_alive k \<and> time k < start + 1
      then wait_children any_alive time start (Suc k) else Some k)"

definition stop_events :: "node list \<Rightarrow> event list" where
  "stop_events nannies = map Stop [0 ..< length nannies]"

text \<open>
  From the \<open>finally\<close> of line 207 to the end of \<open>main\<close>, after \<open>run_sync\<close> returned or was
  interrupted. \<open>None\<close> is a teardown that never ends.
\<close>

definition teardown ::
  "bool \<Rightarrow> node list \<Rightarrow> rpc_outcome \<Rightarrow> (nat \<Rightarrow> bool) \<Rightarrow> (nat \<Rightarrow> real) \<Rightarrow> real
     \<Rightarrow> (event list \<times> error option) option" where
  "teardown nanny_flag nannies outcome any_alive time start =
     (case unregister_all nanny_flag nannies outcome of
        (evs, Some e) \<Rightarrow> Some ([LogInfo ''End worker'', LoopClose] @ evs, Some e)
      | (evs, None) \<Rightarrow>
          if nanny_flag then
            (case wait_children any_alive time start 0 of
               None \<Rightarrow> None
             | Some k \<Rightarrow>
                 Some ([LogInfo ''End worker'', LoopClose] @ evs
                         @ terminate_events 0 nannies
                         @ replicate k (Sleep (1 / 10))
                         @ stop_events nannies,
                       None))
          else Some ([LogInfo ''End worker'', LoopClose] @ evs @ stop_events nannies, None))"

section \<open>Properties\<close>

subsection \<open>Constructor calls of the startup\<close>

lemma constructed_append: "constructed (xs @ ys) = constructed xs @ constructed ys"
  by (induction xs rule: constructed.induct) simp_all

lemma constructed_replicate: "constructed (replicate n (Construct c)) = replicate n c"
  by (induction n) simp_all

lemma constructed_pid: "constructed (pid_events a) = []"
  by (simp add: pid_events_def)

lemma constructed_start_one: "constructed (start_one a i) = []"
  by (simp add: start_one_def)

lemma constructed_concat_nil:
  "(\<And>x. x \<in> set xss \<Longrightarrow> constructed x = []) \<Longrightarrow> constructed (concat xss) = []"
  by (induction xss) (simp_all add: constructed_append)

lemma constructed_start: "constructed (start_events a) = []"
  unfolding start_events_def by (rule constructed_concat_nil) (auto simp: constructed_start_one)

lemma constructed_callback: "constructed (callback_events a lt) = []"
  by (simp add: callback_events_def constructed_append split: option.splits)

lemma startup_fatal:
  "validate a = Some msg \<Longrightarrow>
   main_startup float wn bi a = ([LogError msg], Some (SystemExit 1))"
  by (simp add: main_startup_def)

lemma startup_constructed:
  "constructed (fst (main_startup float wn bi a)) =
     (case validate a of
        Some msg \<Rightarrow> []
      | None \<Rightarrow>
         (case default_nthreads wn a of
            Inl e \<Rightarrow> []
          | Inr nt \<Rightarrow>
             (case parse_resources float (resources a) of
                Inl e \<Rightarrow> []
              | Inr res \<Rightarrow>
                 (case parse_lifetime float (lifetime a) of
                    Inl e \<Rightarrow> []
                  | Inr lt \<Rightarrow> replicate (nat (nprocs a)) (make_ctor bi a nt res)))))"
  by (simp add: main_startup_def construct_events_def constructed_append constructed_replicate
      constructed_pid constructed_start constructed_callback split: option.splits sum.splits)

lemma startup_result:
  "snd (main_startup float wn bi a) =
     (case validate a of
        Some msg \<Rightarrow> Some (SystemExit 1)
      | None \<Rightarrow>
         (case default_nthreads wn a of
            Inl e \<Rightarrow> Some e
          | Inr nt \<Rightarrow>
             (case parse_resources float (resources a) of
                Inl e \<Rightarrow> Some e
              | Inr res \<Rightarrow>
                 (case parse_lifetime float (lifetime a) of
                    Inl e \<Rightarrow> Some e
                  | Inr lt \<Rightarrow> None))))"
  by (simp add: main_startup_def split: option.splits sum.splits)

subsection \<open>Validation of the options\<close>

text \<open>
  Claim C1, as the code has it: with \<open>nprocs > 1\<close>, a non-zero \<open>--worker-port\<close> or a
  non-empty \<open>--name\<close> ends \<open>main\<close> with one logged error and \<open>exit(1)\<close>, and no instance
  has been constructed.
\<close>

theorem validation_rejects_worker_port_or_name:
  assumes "nprocs a > 1" and "worker_port a \<noteq> 0 \<or> name a \<noteq> []"
  shows "\<exists>msg. main_startup float wn bi a = ([LogError msg], Some (SystemExit 1))
           \<and> constructed (fst (main_startup float wn bi a)) = []"
proof -
  from assms have "validate a \<noteq> None"
    by (auto simp: validate_def)
  then obtain msg where "validate a = Some msg"
    by blast
  then have "main_startup float wn bi a = ([LogError msg], Some (SystemExit 1))"
    by (rule startup_fatal)
  then show ?thesis by simp
qed

theorem validation_rejects_name_witness:
  "nprocs ((default_args ''tcp://127.0.0.1:8786'')\<lparr>nprocs := 2, name := ''alice''\<rparr>) > 1
   \<and> name ((default_args ''tcp://127.0.0.1:8786'')\<lparr>nprocs := 2, name := ''alice''\<rparr>) \<noteq> []
   \<and> (\<exists>msg. main_startup float_lit 8 True
          ((default_args ''tcp://127.0.0.1:8786'')\<lparr>nprocs := 2, name := ''alice''\<rparr>)
        = ([LogError msg], Some (SystemExit 1)))"
  using validation_rejects_worker_port_or_name
    [of "(default_args ''tcp://127.0.0.1:8786'')\<lparr>nprocs := 2, name := ''alice''\<rparr>"
        float_lit 8 True]
  by (simp add: default_args_def)

text \<open>
  Claim C1, as it is stated, fails for the port the instances are started on in nanny
  mode: with \<open>--nprocs 2 --nanny-port 8000\<close> no check fires, \<open>main\<close> goes on without an
  exception and two instances are constructed, both to be started on port 8000.
\<close>

theorem nanny_port_not_validated:
  "nprocs ((default_args ''tcp://127.0.0.1:8786'')\<lparr>nprocs := 2, nanny_port := 8000\<rparr>) > 1
   \<and> nanny_port ((default_args ''tcp://127.0.0.1:8786'')\<lparr>nprocs := 2, nanny_port := 8000\<rparr>) \<noteq> 0
   \<and> port ((default_args ''tcp://127.0.0.1:8786'')\<lparr>nprocs := 2, nanny_port := 8000\<rparr>) = 8000
   \<and> snd (main_startup float_lit 8 True
        ((default_args ''tcp://127.0.0.1:8786'')\<lparr>nprocs := 2, nanny_port := 8000\<rparr>)) = None
   \<and> length (constructed (fst (main_startup float_lit 8 True
        ((default_args ''tcp://127.0.0.1:8786'')\<lparr>nprocs := 2, nanny_port := 8000\<rparr>)))) = 2"
  by (simp add: startup_constructed startup_result default_args_def port_def validate_def
        default_nthreads_def parse_resources_def parse_lifetime_def)

subsection \<open>The default number of threads\<close>

text \<open>
  Claim C8: when \<open>nthreads\<close> is zero, every constructor call gets
  \<open>ncores = _ncores // nprocs\<close>, and a startup that raises nothing makes \<open>nprocs\<close> such
  calls. With 8 cores and \<open>nprocs = 2\<close> that is 4 threads for each of the two instances
  (the witness).
\<close>

theorem nthreads_default_floor_division:
  assumes "nthreads a = 0"
  shows "(\<forall>c \<in> set (constructed (fst (main_startup float worker_ncores bi a))).
            ncores c = worker_ncores div nprocs a)
         \<and> (snd (main_startup float worker_ncores bi a) = None \<longrightarrow>
              length (constructed (fst (main_startup float worker_ncores bi a))) = nat (nprocs a))"
proof
  show "\<forall>c \<in> set (constructed (fst (main_startup float worker_ncores bi a))).
            ncores c = worker_ncores div nprocs a"
    using assms
    by (auto simp: startup_constructed default_nthreads_def make_ctor_def
        split: option.splits sum.splits if_splits)
  show "snd (main_startup float worker_ncores bi a) = None \<longrightarrow>
              length (constructed (fst (main_startup float worker_ncores bi a))) = nat (nprocs a)"
    by (auto simp: startup_constructed startup_result split: option.splits sum.splits)
qed

theorem nthreads_default_8_cores_2_procs:
  "nthreads ((default_args ''tcp://127.0.0.1:8786'')\<lparr>nprocs := 2\<rparr>) = 0
   \<and> map ncores (constructed (fst (main_startup float_lit 8 True
          ((default_args ''tcp://127.0.0.1:8786'')\<lparr>nprocs := 2\<rparr>)))) = [4, 4]"
  using nthreads_default_floor_division
    [of "(default_args ''tcp://127.0.0.1:8786'')\<lparr>nprocs := 2\<rparr>" float_lit 8 True]
  by (simp add: startup_constructed default_args_def validate_def
        default_nthreads_def parse_resources_def parse_lifetime_def make_ctor_def numeral_2_eq_2)

subsection \<open>The resources argument\<close>

text \<open>
  Claim C10: with an empty \<open>--resources\<close> every constructor call gets \<open>resources=None\<close>,
  and with a non-empty one every constructor call gets a mapping.
\<close>

theorem empty_resources_is_None:
  "(resources a = [] \<longrightarrow>
      (\<forall>c \<in> set (constructed (fst (main_startup float wn bi a))). ctor_resources c = None))
   \<and> (resources a \<noteq> [] \<longrightarrow>
      (\<forall>c \<in> set (constructed (fst (main_startup float wn bi a))). ctor_resources c \<noteq> None))"
  by (auto simp: startup_constructed parse_resources_def make_ctor_def
        split: option.splits sum.splits if_splits)

theorem empty_resources_is_None_witness:
  "resources (default_args ''tcp://127.0.0.1:8786'') = []
   \<and> map ctor_resources (constructed (fst (main_startup float_lit 8 True
         (default_args ''tcp://127.0.0.1:8786'')))) = [None]
   \<and> resources ((default_args ''tcp://127.0.0.1:8786'')\<lparr>resources := ''GPU=2''\<rparr>) \<noteq> []
   \<and> map ctor_resources (constructed (fst (main_startup float_lit 8 True
         ((default_args ''tcp://127.0.0.1:8786'')\<lparr>resources := ''GPU=2''\<rparr>))))
       = [Some [(''GPU'', 2)]]"
  using empty_resources_is_None [of "default_args ''tcp://127.0.0.1:8786''" float_lit 8 True]
  by (simp add: startup_constructed default_args_def validate_def
        default_nthreads_def parse_resources_def parse_lifetime_def make_ctor_def
        pairs_dict_def tokens_def replace_commas_def isspace_def
        nonspace_def float_lit_def take_sign_def take_fraction_def isdigit_def digit_of_def
        scale10_def)

subsection \<open>Parsing the resources\<close>

lemma replace_commas_idem: "replace_commas (replace_commas s) = replace_commas s"
  by (simp add: replace_commas_def)

lemma replace_commas_nil: "replace_commas s = [] \<longleftrightarrow> s = []"
  by (simp add: replace_commas_def)

lemma tokens_replace: "tokens (replace_commas s) = tokens s"
  by (simp add: tokens_def replace_commas_idem)

text \<open>
  Claim C5: \<open>"GPU=2 MEM=10e9"\<close> and \<open>"GPU=2,MEM=10e9"\<close> both parse to
  \<open>{"GPU": 2.0, "MEM": 1e10}\<close>, and for every string and every \<open>float\<close> the string
  parses as the string with its commas replaced by spaces does.
\<close>

theorem resources_comma_space_equivalence:
  "parse_resources float_lit ''GPU=2 MEM=10e9'' = Inr (Some [(''GPU'', 2), (''MEM'', 10 ^ 10)])
   \<and> parse_resources float_lit ''GPU=2,MEM=10e9'' = Inr (Some [(''GPU'', 2), (''MEM'', 10 ^ 10)])
   \<and> (\<forall>float s. parse_resources float (replace_commas s) = parse_resources float s)"
proof (intro conjI allI)
  show "parse_resources float_lit ''GPU=2 MEM=10e9''
          = Inr (Some [(''GPU'', 2), (''MEM'', 10 ^ 10)])"
    by (simp add: parse_resources_def pairs_dict_def tokens_def replace_commas_def isspace_def
        nonspace_def float_lit_def take_sign_def take_fraction_def isdigit_def digit_of_def
        scale10_def)
  show "parse_resources float_lit ''GPU=2,MEM=10e9''
          = Inr (Some [(''GPU'', 2), (''MEM'', 10 ^ 10)])"
    by (simp add: parse_resources_def pairs_dict_def tokens_def replace_commas_def isspace_def
        nonspace_def float_lit_def take_sign_def take_fraction_def isdigit_def digit_of_def
        scale10_def)
  show "parse_resources float (replace_commas s) = parse_resources float s" for float s
    by (simp add: parse_resources_def pairs_dict_def tokens_replace replace_commas_nil)
qed

subsection \<open>The wait for the children\<close>

text \<open>
  The clock model: the reading before the first check is not before \<open>start\<close>, and every
  \<open>sleep\<close> moves the clock on by at least \<open>\<delta>\<close>.
\<close>

lemma clock_lower:
  assumes "\<forall>k. time k + \<delta> \<le> time (Suc k)" and "start \<le> time 0"
  shows "start + real k * \<delta> \<le> time k"
proof (induction k)
  case 0
  from assms(2) show ?case by simp
next
  case (Suc k)
  from assms(1) have "time k + \<delta> \<le> time (Suc k)" by blast
  with Suc show ?case by (simp add: algebra_simps)
qed

lemma wait_children_from:
  assumes "start + 1 \<le> time N"
  shows "k \<le> N \<Longrightarrow>
    \<exists>j. k \<le> j \<and> j \<le> N \<and> wait_children any_alive time start k = Some j
       \<and> (\<forall>i. k \<le> i \<and> i < j \<longrightarrow> any_alive i \<and> time i < start + 1)"
proof (induction "N - k" arbitrary: k)
  case 0
  then have "k = N" by simp
  with assms have "wait_children any_alive time start k = Some k"
    by (subst wait_children.simps) simp
  then show ?case using \<open>k = N\<close> by auto
next
  case (Suc d)
  show ?case
  proof (cases "any_alive k \<and> time k < start + 1")
    case False
    then have "wait_children any_alive time start k = Some k"
      by (subst wait_children.simps) auto
    with Suc.prems show ?thesis by auto
  next
    case True
    from Suc.hyps(2) have "d = N - Suc k" and "Suc k \<le> N" by simp_all
    from Suc.hyps(1) [OF this] obtain j where j: "Suc k \<le> j" "j \<le> N"
      "wait_children any_alive time start (Suc k) = Some j"
      "\<forall>i. Suc k \<le> i \<and> i < j \<longrightarrow> any_alive i \<and> time i < start + 1"
      by blast
    from True j(3) have "wait_children any_alive time start k = Some j"
      by (subst wait_children.simps) simp
    moreover have "\<forall>i. k \<le> i \<and> i < j \<longrightarrow> any_alive i \<and> time i < start + 1"
    proof (intro allI impI)
      fix i assume "k \<le> i \<and> i < j"
      then consider "i = k" | "Suc k \<le> i \<and> i < j" by force
      then show "any_alive i \<and> time i < start + 1"
        using True j(4) by cases auto
    qed
    ultimately show ?thesis using j(1,2) by auto
  qed
qed

text \<open>
  Claim C9: whatever the children do (\<open>any_alive\<close> is arbitrary), the loop of lines
  233-235 ends. If every \<open>sleep(0.1)\<close> moves the clock on by at least \<open>\<delta> > 0\<close>, it ends
  after at most \<open>\<lceil>1 / \<delta>\<rceil>\<close> sleeps (10 for \<open>\<delta> = 0.1\<close>), and every sleep but the last
  began less than one second after \<open>start\<close>.
\<close>

theorem wait_children_terminates:
  assumes "0 < \<delta>" and "start \<le> time 0" and "\<forall>k. time k + \<delta> \<le> time (Suc k)"
  shows "\<exists>k \<le> nat \<lceil>1 / \<delta>\<rceil>. wait_children any_alive time start 0 = Some k
           \<and> (\<forall>i < k. any_alive i \<and> time i < start + 1)"
proof -
  define N where "N = nat \<lceil>1 / \<delta>\<rceil>"
  have "1 / \<delta> \<le> real N"
    unfolding N_def using assms(1) by (simp add: real_nat_ceiling_ge)
  with assms(1) have "1 \<le> real N * \<delta>"
    by (simp add: pos_divide_le_eq)
  moreover have "start + real N * \<delta> \<le> time N"
    using assms(3) assms(2) by (rule clock_lower)
  ultimately have "start + 1 \<le> time N" by simp
  then have "\<exists>j. 0 \<le> j \<and> j \<le> N \<and> wait_children any_alive time start 0 = Some j
       \<and> (\<forall>i. 0 \<le> i \<and> i < j \<longrightarrow> any_alive i \<and> time i < start + 1)"
    by (rule wait_children_from) simp
  then show ?thesis unfolding N_def by auto
qed

theorem wait_children_never_exiting_witness:
  "(0::real) < 1 / 10
   \<and> (\<forall>k. real k / 10 + 1 / 10 \<le> real (Suc k) / 10)
   \<and> (\<exists>k \<le> 10. wait_children (\<lambda>k. True) (\<lambda>k. real k / 10) 0 0 = Some k)"
  using wait_children_terminates [of "1 / 10" 0 "\<lambda>k. real k / 10" "\<lambda>k. True"]
  by (auto simp: field_simps)

subsection \<open>Retirement\<close>

lemma run_stops_when_retired:
  "retired_at k \<Longrightarrow> run nannies_at retired_at k = Some k"
  by (subst run.simps) (simp add: run_continue_def)

lemma startup_events_ok:
  assumes "snd (main_startup float wn bi a) = None"
    and "parse_lifetime float (lifetime a) = Inr lt"
  shows "set (callback_events a lt) \<subseteq> set (fst (main_startup float wn bi a))"
  using assms
  by (auto simp: main_startup_def split: option.splits sum.splits)

lemma lifetime_example: "parse_lifetime float_lit ''d=1 h=2 m=3 s=4'' = Inr (Some 93784)"
  by (simp add: parse_lifetime_def lifetime_try_def pairs_dict_def tokens_def replace_commas_def
       isspace_def nonspace_def to_secs_def
       float_lit_def take_sign_def take_fraction_def isdigit_def digit_of_def scale10_def)

text \<open>
  Claim C3, as the code has it: with at least one instance, the coroutine \<open>retire\<close>
  issues \<open>retire_workers\<close> with \<open>remove=False\<close> and sets the flag after it (with no
  instance at all, \<open>nannies[0]\<close> raises and the flag is left as it was); once the flag is
  set the condition of the loop of \<open>run\<close> is false whatever the statuses are, so the
  loop ends at that check; and a startup that raises nothing schedules \<open>retire\<close> when the
  parsed lifetime is not zero (the test \<open>if lifetime:\<close> of line 182).
\<close>

theorem retirement_sets_flag_after_rpc:
  "(nannies \<noteq> [] \<longrightarrow>
      retire nanny_flag nannies lt retired =
        ([Sleep lt, LogInfo ''Retiring worker...'',
          RetireWorkers (retire_targets nanny_flag nannies) False,
          SetRetired, LogInfo ''Worker retired''], True, None))
   \<and> retire nanny_flag [] lt retired =
        ([Sleep lt, LogInfo ''Retiring worker...''], retired, Some IndexError)
   \<and> \<not> run_continue nannies True
   \<and> (retired_at k \<longrightarrow> run nannies_at retired_at k = Some k)
   \<and> (snd (main_startup float wn bi a) = None
        \<and> parse_lifetime float (lifetime a) = Inr (Some lt) \<and> lt \<noteq> 0
      \<longrightarrow> AddCallback (Retire lt) \<in> set (fst (main_startup float wn bi a)))"
proof (intro conjI impI)
  assume "nannies \<noteq> []"
  then show "retire nanny_flag nannies lt retired =
        ([Sleep lt, LogInfo ''Retiring worker...'',
          RetireWorkers (retire_targets nanny_flag nannies) False,
          SetRetired, LogInfo ''Worker retired''], True, None)"
    by (cases nannies) (simp_all add: retire_def)
next
  show "retire nanny_flag [] lt retired =
        ([Sleep lt, LogInfo ''Retiring worker...''], retired, Some IndexError)"
    by (simp add: retire_def)
next
  show "\<not> run_continue nannies True"
    by (simp add: run_continue_def)
next
  assume "retired_at k"
  then show "run nannies_at retired_at k = Some k"
    by (rule run_stops_when_retired)
next
  assume h: "snd (main_startup float wn bi a) = None
        \<and> parse_lifetime float (lifetime a) = Inr (Some lt) \<and> lt \<noteq> 0"
  then have "set (callback_events a (Some lt)) \<subseteq> set (fst (main_startup float wn bi a))"
    by (intro startup_events_ok) simp_all
  moreover from h have "AddCallback (Retire lt) \<in> set (callback_events a (Some lt))"
    by (simp add: callback_events_def)
  ultimately show "AddCallback (Retire lt) \<in> set (fst (main_startup float wn bi a))"
    by blast
qed

theorem retirement_witness:
  "retire True
      [\<lparr>status = ''running'', process = True, isalive_process = True,
        node_worker_port = Some 40000, worker_address = Some ''tcp://127.0.0.1:40000'',
        address = Some ''tcp://127.0.0.1:40001'', worker_dir = Some ''/tmp/nanny-0''\<rparr>]
      93784 False =
     ([Sleep 93784, LogInfo ''Retiring worker...'',
       RetireWorkers [Some ''tcp://127.0.0.1:40000''] False,
       SetRetired, LogInfo ''Worker retired''], True, None)
   \<and> run (\<lambda>k. [\<lparr>status = ''running'', process = True, isalive_process = True,
        node_worker_port = Some 40000, worker_address = Some ''tcp://127.0.0.1:40000'',
        address = Some ''tcp://127.0.0.1:40001'', worker_dir = Some ''/tmp/nanny-0''\<rparr>])
        (\<lambda>k. 3 \<le> k) 3 = Some 3
   \<and> AddCallback (Retire 93784) \<in> set (fst (main_startup float_lit 8 True
        ((default_args ''tcp://127.0.0.1:8786'')\<lparr>lifetime := ''d=1 h=2 m=3 s=4''\<rparr>)))"
  using retirement_sets_flag_after_rpc [where nannies = "[\<lparr>status = ''running'', process = True, isalive_process = True,
        node_worker_port = Some 40000, worker_address = Some ''tcp://127.0.0.1:40000'',
        address = Some ''tcp://127.0.0.1:40001'', worker_dir = Some ''/tmp/nanny-0''\<rparr>]"
      and nanny_flag = True and lt = 93784 and retired = False
      and retired_at = "\<lambda>k. 3 \<le> k" and k = 3
      and nannies_at = "\<lambda>k. [\<lparr>status = ''running'', process = True, isalive_process = True,
        node_worker_port = Some 40000, worker_address = Some ''tcp://127.0.0.1:40000'',
        address = Some ''tcp://127.0.0.1:40001'', worker_dir = Some ''/tmp/nanny-0''\<rparr>]"
      and float = float_lit and wn = 8 and bi = True
      and a = "(default_args ''tcp://127.0.0.1:8786'')\<lparr>lifetime := ''d=1 h=2 m=3 s=4''\<rparr>"]
    lifetime_example
  by (simp add: retire_targets_def true_port_def startup_result default_args_def validate_def
       default_nthreads_def parse_resources_def)

text \<open>
  Claim C3, as it is stated, fails for a lifetime of zero seconds and for a launch
  without instances. \<open>--lifetime s=0\<close> parses to 0, which the test of line 182 takes
  for no lifetime: the startup schedules no callback at all, so no RPC is issued and the
  flag is never set. With \<open>--nprocs 0 --nthreads 1 --lifetime s=1\<close> the callback is
  scheduled, but \<open>nannies[0]\<close> raises in it before the RPC; the flag stays false and the
  condition of the loop stays true.
\<close>

theorem zero_lifetime_never_retires:
  "parse_lifetime float_lit ''s=0'' = Inr (Some 0)
   \<and> main_startup float_lit 8 True
        ((default_args ''tcp://127.0.0.1:8786'')\<lparr>lifetime := ''s=0''\<rparr>)
      = ([Construct
            \<lparr>ctor_cls = Nanny, ctor_scheduler = ''tcp://127.0.0.1:8786'', ncores = 8,
             services = [((''http'', 0), HTTPWorker), ((''bokeh'', 8789), BokehWorker)],
             ctor_name = [], ctor_resources = None, ctor_memory_limit = ''auto'',
             ctor_reconnect = True, local_dir = [],
             kwargs = [(''worker_port'', WorkerPortArg 0)]\<rparr>,
          Start 0 (Port 0), GlobalNanniesAppend 0],
         None)
   \<and> main_startup float_lit 8 True
        ((default_args ''tcp://127.0.0.1:8786'')
           \<lparr>nprocs := 0, nthreads := 1, lifetime := ''s=1''\<rparr>)
      = ([AddCallback (Retire 1)], None)
   \<and> retire True [] 1 False = ([Sleep 1, LogInfo ''Retiring worker...''], False, Some IndexError)
   \<and> run_continue [] False"
  by (simp add: main_startup_def default_args_def validate_def default_nthreads_def
       parse_resources_def pid_events_def construct_events_def make_ctor_def make_services_def
       make_kwargs_def start_events_def start_one_def start_endpoint_def port_def
       callback_events_def retire_def run_continue_def
       parse_lifetime_def lifetime_try_def pairs_dict_def tokens_def replace_commas_def
       isspace_def nonspace_def to_secs_def
       float_lit_def take_sign_def take_fraction_def isdigit_def digit_of_def scale10_def)

subsection \<open>The signal handler\<close>

lemma rmtree_all_swallowed:
  "\<forall>j < length ds. rmtree (i + j) (ds ! j) \<in> {None, Some OSError, Some IOError, Some TypeError}
   \<Longrightarrow> rmtree_all rmtree i ds = (map Rmtree ds, None)"
proof (induction ds arbitrary: i)
  case Nil
  show ?case by simp
next
  case (Cons d ds)
  from Cons.prems have "rmtree (i + 0) ((d # ds) ! 0) \<in> {None, Some OSError, Some IOError, Some TypeError}"
    by blast
  then have d: "rmtree i d \<in> {None, Some OSError, Some IOError, Some TypeError}" by simp
  have "\<forall>j < length ds. rmtree (Suc i + j) (ds ! j) \<in> {None, Some OSError, Some IOError, Some TypeError}"
  proof (intro allI impI)
    fix j assume "j < length ds"
    then have "Suc j < length (d # ds)" by simp
    with Cons.prems have "rmtree (i + Suc j) ((d # ds) ! Suc j) \<in> {None, Some OSError, Some IOError, Some TypeError}"
      by blast
    then show "rmtree (Suc i + j) (ds ! j) \<in> {None, Some OSError, Some IOError, Some TypeError}" by simp
  qed
  then have "rmtree_all rmtree (Suc i) ds = (map Rmtree ds, None)" by (rule Cons.IH)
  with d show ?case by auto
qed

text \<open>
  Claim C4: when every \<open>rmtree\<close> either succeeds or raises \<open>OSError\<close>, \<open>IOError\<close> or
  \<open>TypeError\<close>, the handler calls \<open>rmtree\<close> on the working directory of every tracked
  nanny, in order, and then schedules \<open>loop.stop\<close> if the loop is running and ends with
  \<open>exit(1)\<close> otherwise.
\<close>

theorem handle_signal_swallows_and_stops:
  assumes "\<forall>i < length global_nannies.
             rmtree i (worker_dir (global_nannies ! i))
               \<in> {None, Some OSError, Some IOError, Some TypeError}"
  shows "handle_signal rmtree loop_running global_nannies =
           (map (\<lambda>n. Rmtree (worker_dir n)) global_nannies
              @ (if loop_running then [AddCallback LoopStop] else []),
            if loop_running then None else Some (SystemExit 1))"
proof -
  from assms have "\<forall>j < length (map worker_dir global_nannies).
      rmtree (0 + j) (map worker_dir global_nannies ! j) \<in> {None, Some OSError, Some IOError, Some TypeError}"
    by simp
  then have "rmtree_all rmtree 0 (map worker_dir global_nannies)
               = (map Rmtree (map worker_dir global_nannies), None)"
    by (rule rmtree_all_swallowed)
  then show ?thesis by (simp add: handle_signal_def comp_def)
qed

theorem handle_signal_witness:
  "handle_signal
     (\<lambda>i d. case d of None \<Rightarrow> Some TypeError
                     | Some p \<Rightarrow> if p = ''/tmp/nanny-1'' then Some OSError else None)
     False
     [\<lparr>status = ''running'', process = False, isalive_process = False,
        node_worker_port = None, worker_address = None, address = None, worker_dir = None\<rparr>,
      \<lparr>status = ''running'', process = True, isalive_process = True,
        node_worker_port = Some 40000, worker_address = Some ''tcp://127.0.0.1:40000'',
        address = Some ''tcp://127.0.0.1:40001'', worker_dir = Some ''/tmp/nanny-1''\<rparr>,
      \<lparr>status = ''running'', process = True, isalive_process = True,
        node_worker_port = Some 40002, worker_address = Some ''tcp://127.0.0.1:40002'',
        address = Some ''tcp://127.0.0.1:40003'', worker_dir = Some ''/tmp/nanny-2''\<rparr>]
   = ([Rmtree None, Rmtree (Some ''/tmp/nanny-1''), Rmtree (Some ''/tmp/nanny-2'')],
      Some (SystemExit 1))
   \<and> handle_signal (\<lambda>i d. None) True
     [\<lparr>status = ''running'', process = True, isalive_process = True,
        node_worker_port = Some 40000, worker_address = Some ''tcp://127.0.0.1:40000'',
        address = Some ''tcp://127.0.0.1:40001'', worker_dir = Some ''/tmp/nanny-1''\<rparr>]
   = ([Rmtree (Some ''/tmp/nanny-1''), AddCallback LoopStop], None)"
proof -
  let ?rm = "\<lambda>(i::nat) d. case d of None \<Rightarrow> Some TypeError
                     | Some p \<Rightarrow> if p = ''/tmp/nanny-1'' then Some OSError else None"
  let ?ns = "[\<lparr>status = ''running'', process = False, isalive_process = False,
        node_worker_port = None, worker_address = None, address = None, worker_dir = None\<rparr>,
      \<lparr>status = ''running'', process = True, isalive_process = True,
        node_worker_port = Some 40000, worker_address = Some ''tcp://127.0.0.1:40000'',
        address = Some ''tcp://127.0.0.1:40001'', worker_dir = Some ''/tmp/nanny-1''\<rparr>,
      \<lparr>status = ''running'', process = True, isalive_process = True,
        node_worker_port = Some 40002, worker_address = Some ''tcp://127.0.0.1:40002'',
        address = Some ''tcp://127.0.0.1:40003'', worker_dir = Some ''/tmp/nanny-2''\<rparr>]"
  have h1: "\<forall>i < length ?ns. ?rm i (worker_dir (?ns ! i))
              \<in> {None, Some OSError, Some IOError, Some TypeError}"
    by (auto split: option.splits)
  let ?ok = "\<lambda>(i::nat) (d::string option). None :: error option"
  let ?ms = "[\<lparr>status = ''running'', process = True, isalive_process = True,
        node_worker_port = Some 40000, worker_address = Some ''tcp://127.0.0.1:40000'',
        address = Some ''tcp://127.0.0.1:40001'', worker_dir = Some ''/tmp/nanny-1''\<rparr>]"
  have h2: "\<forall>i < length ?ms. ?ok i (worker_dir (?ms ! i))
              \<in> {None, Some OSError, Some IOError, Some TypeError}"
    by simp
  show ?thesis
    using handle_signal_swallows_and_stops [where global_nannies = ?ns and rmtree = ?rm and loop_running = False, OF h1]
      handle_signal_swallows_and_stops [where global_nannies = ?ms and rmtree = ?ok and loop_running = True, OF h2]
    by simp
qed

subsection \<open>Teardown\<close>

text \<open>
  Claim C2 at a concrete input: one nanny with a live process and a known worker
  address. When the unregistration times out, \<open>main\<close> ends with \<open>TimeoutError\<close> right
  after the call, and the child is neither terminated nor stopped; when it completes
  (and the child is then found dead by the wait), the child is terminated and stopped.
\<close>

theorem teardown_timeout_escalates:
  "teardown True
     [\<lparr>status = ''running'', process = True, isalive_process = True,
        node_worker_port = Some 40000, worker_address = Some ''tcp://127.0.0.1:40000'',
        address = Some ''tcp://127.0.0.1:40001'', worker_dir = Some ''/tmp/nanny-0''\<rparr>]
     TimedOut any_alive time start
   = Some ([LogInfo ''End worker'', LoopClose, NewLoop,
            UnregisterAll 2 [(Some ''tcp://127.0.0.1:40000'', True)]],
           Some TimeoutError)
  \<and> teardown True
     [\<lparr>status = ''running'', process = True, isalive_process = True,
        node_worker_port = Some 40000, worker_address = Some ''tcp://127.0.0.1:40000'',
        address = Some ''tcp://127.0.0.1:40001'', worker_dir = Some ''/tmp/nanny-0''\<rparr>]
     Completed (\<lambda>k. False) time start
   = Some ([LogInfo ''End worker'', LoopClose, NewLoop,
            UnregisterAll 2 [(Some ''tcp://127.0.0.1:40000'', True)],
            Terminate 0, Stop 0],
           None)"
proof
  show "teardown True
     [\<lparr>status = ''running'', process = True, isalive_process = True,
        node_worker_port = Some 40000, worker_address = Some ''tcp://127.0.0.1:40000'',
        address = Some ''tcp://127.0.0.1:40001'', worker_dir = Some ''/tmp/nanny-0''\<rparr>]
     TimedOut any_alive time start
   = Some ([LogInfo ''End worker'', LoopClose, NewLoop,
            UnregisterAll 2 [(Some ''tcp://127.0.0.1:40000'', True)]],
           Some TimeoutError)"
    by (simp add: teardown_def unregister_all_def unregister_calls_def true_str_def)
  have w: "wait_children (\<lambda>k. False) time start 0 = Some 0"
    by (subst wait_children.simps) simp
  show "teardown True
     [\<lparr>status = ''running'', process = True, isalive_process = True,
        node_worker_port = Some 40000, worker_address = Some ''tcp://127.0.0.1:40000'',
        address = Some ''tcp://127.0.0.1:40001'', worker_dir = Some ''/tmp/nanny-0''\<rparr>]
     Completed (\<lambda>k. False) time start
   = Some ([LogInfo ''End worker'', LoopClose, NewLoop,
            UnregisterAll 2 [(Some ''tcp://127.0.0.1:40000'', True)],
            Terminate 0, Stop 0],
           None)"
    by (simp add: teardown_def unregister_all_def unregister_calls_def true_str_def w stop_events_def)
qed


subsection \<open>Parsing the lifetime\<close>

lemma sum_secs_known:
  "map (\<lambda>(k, v). map_of to_secs k) d = map Some fs \<Longrightarrow>
   sum_secs acc d = Inr (acc + sum_list (map (\<lambda>(f, k, v). f * v) (zip fs d)))"
proof (induction acc d arbitrary: fs rule: sum_secs.induct)
  case (1 acc)
  then show ?case by simp
next
  case (2 acc k v d)
  from "2.prems" obtain f fs' where fs: "fs = f # fs'" "map_of to_secs k = Some f"
    "map (\<lambda>(k, v). map_of to_secs k) d = map Some fs'"
    by (cases fs) auto
  from "2.IH" [OF fs(2) fs(3)] fs show ?case by (simp add: algebra_simps)
qed

text \<open>
  Claim C6: \<open>"d=1 h=2 m=3 s=4"\<close> parses to 93784 seconds; the table has the factors
  86400, 3600, 60 and 1 under the short and the long unit names; and whenever the
  dictionary of a non-empty string has only keys of the table, the result is the sum
  of the products of each value with the factor of its key.
\<close>

theorem lifetime_sum_of_products:
  "parse_lifetime float_lit ''d=1 h=2 m=3 s=4'' = Inr (Some 93784)
   \<and> map (map_of to_secs)
        [''d'', ''days'', ''h'', ''hours'', ''m'', ''mins'', ''minutes'', ''s'', ''secs'', ''seconds'']
      = map Some [86400, 86400, 3600, 3600, 60, 60, 60, 1, 1, 1]
   \<and> (\<forall>float s d fs.
         s \<noteq> [] \<and> pairs_dict float s = Inr d
           \<and> map (\<lambda>(k, v). map_of to_secs k) d = map Some fs
         \<longrightarrow> parse_lifetime float s
               = Inr (Some (sum_list (map (\<lambda>(f, k, v). f * v) (zip fs d)))))"
proof (intro conjI allI impI)
  show "parse_lifetime float_lit ''d=1 h=2 m=3 s=4'' = Inr (Some 93784)"
    by (rule lifetime_example)
  show "map (map_of to_secs)
        [''d'', ''days'', ''h'', ''hours'', ''m'', ''mins'', ''minutes'', ''s'', ''secs'', ''seconds'']
      = map Some [86400, 86400, 3600, 3600, 60, 60, 60, 1, 1, 1]"
    by (simp add: to_secs_def)
next
  fix float s d fs
  assume h: "s \<noteq> [] \<and> pairs_dict float s = Inr d
           \<and> map (\<lambda>(k, v). map_of to_secs k) d = map Some fs"
  then have "sum_secs 0 d = Inr (0 + sum_list (map (\<lambda>(f, k, v). f * v) (zip fs d)))"
    by (intro sum_secs_known) simp
  with h show "parse_lifetime float s
               = Inr (Some (sum_list (map (\<lambda>(f, k, v). f * v) (zip fs d))))"
    by (simp add: parse_lifetime_def lifetime_try_def)
qed

lemma pairs_dict_help_example: "pairs_dict float_lit ''d=2.5 h=12 m=45 s=59''
      = Inr [(''d'', 5 / 2), (''h'', 12), (''m'', 45), (''s'', 59)]"
  by (simp add: pairs_dict_def tokens_def replace_commas_def
       isspace_def nonspace_def
       float_lit_def take_sign_def take_fraction_def isdigit_def digit_of_def scale10_def)

theorem lifetime_sum_of_products_witness:
  "pairs_dict float_lit ''d=2.5 h=12 m=45 s=59''
      = Inr [(''d'', 5 / 2), (''h'', 12), (''m'', 45), (''s'', 59)]
   \<and> parse_lifetime float_lit ''d=2.5 h=12 m=45 s=59'' = Inr (Some 261959)"
proof -
  have fs: "map (\<lambda>(k, v). map_of to_secs k) [(''d'', 5 / 2 :: real), (''h'', 12), (''m'', 45), (''s'', 59)]
          = map Some [86400, 3600, 60, 1]"
    by (simp add: to_secs_def)
  from lifetime_sum_of_products have "\<forall>float s d fs.
         s \<noteq> [] \<and> pairs_dict float s = Inr d
           \<and> map (\<lambda>(k, v). map_of to_secs k) d = map Some fs
         \<longrightarrow> parse_lifetime float s
               = Inr (Some (sum_list (map (\<lambda>(f, k, v). f * v) (zip fs d))))"
    by blast
  from this [rule_format, of "''d=2.5 h=12 m=45 s=59''" float_lit
      "[(''d'', 5 / 2), (''h'', 12), (''m'', 45), (''s'', 59)]" "[86400, 3600, 60, 1]"]
    pairs_dict_help_example fs
  show ?thesis by simp
qed


subsection \<open>Rejected lifetimes\<close>

lemma setitem_keys: "fst ` set (setitem d k v) = insert k (fst ` set d)"
  by (induction d k v rule: setitem.induct) auto

lemma setitem_in: "(k, v) \<in> set (setitem d k v)"
  by (induction d k v rule: setitem.induct) auto

lemma setitem_other: "k' \<noteq> k \<Longrightarrow> (k, v) \<in> set d \<Longrightarrow> (k, v) \<in> set (setitem d k' v')"
  by (induction d k' v' rule: setitem.induct) auto

lemma dict_of_error: "dict_of d ps = Inl e \<Longrightarrow> \<exists>m. e = ValueError m"
  by (induction d ps rule: dict_of.induct) (auto split: list.splits)

lemma dict_of_append:
  "dict_of d (ps @ qs) = (case dict_of d ps of Inl e \<Rightarrow> Inl e | Inr d' \<Rightarrow> dict_of d' qs)"
  by (induction d ps rule: dict_of.induct) (auto split: list.splits)

lemma dict_of_keeps_key:
  "dict_of d ps = Inr d' \<Longrightarrow> k \<in> fst ` set d \<Longrightarrow> k \<in> fst ` set d'"
  by (induction d ps rule: dict_of.induct) (auto split: list.splits simp: setitem_keys)

lemma dict_of_keeps_pair:
  "dict_of d ps = Inr d' \<Longrightarrow> (k, v) \<in> set d \<Longrightarrow> \<forall>p \<in> set ps. \<forall>v'. p \<noteq> [k, v']
     \<Longrightarrow> (k, v) \<in> set d'"
proof (induction d ps rule: dict_of.induct)
  case (1 d)
  then show ?case by simp
next
  case (2 d p ps)
  from "2.prems"(1) obtain k' v' where p: "p = [k', v']"
    by (auto split: list.splits)
  with "2.prems"(3) have "k' \<noteq> k" by auto
  from this "2.prems"(2) have "(k, v) \<in> set (setitem d k' v')" by (rule setitem_other)
  moreover from "2.prems"(1) p have "dict_of (setitem d k' v') ps = Inr d'" by simp
  moreover from "2.prems"(3) have "\<forall>p \<in> set ps. \<forall>v'. p \<noteq> [k, v']" by simp
  ultimately show ?case using "2.IH" p by blast
qed

lemma valmap_error: "valmap float d = Inl e \<Longrightarrow> \<exists>m. e = ValueError m"
  by (induction float d rule: valmap.induct) (auto split: option.splits sum.splits)

lemma valmap_ok:
  "valmap float d = Inr d' \<Longrightarrow> map fst d' = map fst d \<and> (\<forall>(k, v) \<in> set d. float v \<noteq> None)"
  by (induction float d arbitrary: d' rule: valmap.induct) (auto split: option.splits sum.splits)

lemma sum_secs_error: "sum_secs acc d = Inl e \<Longrightarrow> \<exists>k. e = KeyError k"
  by (induction acc d rule: sum_secs.induct) (auto split: option.splits)

lemma sum_secs_ok: "sum_secs acc d = Inr x \<Longrightarrow> \<forall>k \<in> fst ` set d. map_of to_secs k \<noteq> None"
  by (induction acc d rule: sum_secs.induct) (auto split: option.splits)

lemma lifetime_try_error:
  "lifetime_try float s = Inl e \<Longrightarrow> lifetime_except e = ValueError lifetime_msg"
  by (auto simp: lifetime_try_def pairs_dict_def split: sum.splits
      dest!: dict_of_error valmap_error sum_secs_error)

lemma tokens_nil: "tokens [] = []"
  by (simp add: tokens_def replace_commas_def)

lemma lifetime_try_ok:
  assumes "lifetime_try float s = Inr x"
  shows "\<exists>d d'. dict_of [] (map (split_on CHR ''='') (tokens s)) = Inr d
           \<and> valmap float d = Inr d' \<and> sum_secs 0 d' = Inr x"
  using assms by (auto simp: lifetime_try_def pairs_dict_def split: sum.splits)

text \<open>
  Next line and no-break space separate tokens as a space does: a no-break space
  followed by \<open>d=1\<close> is the one token \<open>d=1\<close> and parses to 86400 seconds.
\<close>

lemma tokens_no_break_space:
  "tokens [CHR 0xA0, CHR ''d'', CHR ''='', CHR ''1''] = [''d=1'']
   \<and> tokens (''GPU=1'' @ [CHR 0xA0] @ ''MEM=2'') = [''GPU=1'', ''MEM=2'']
   \<and> tokens (''h=1'' @ [CHR 0x85] @ ''m=2'') = [''h=1'', ''m=2'']"
  by (simp add: tokens_def replace_commas_def isspace_def nonspace_def)

lemma lifetime_no_break_space:
  "parse_lifetime float_lit [CHR 0xA0, CHR ''d'', CHR ''='', CHR ''1''] = Inr (Some 86400)"
  by (simp add: parse_lifetime_def lifetime_try_def pairs_dict_def tokens_def replace_commas_def
       isspace_def nonspace_def to_secs_def
       float_lit_def take_sign_def take_fraction_def isdigit_def digit_of_def scale10_def)

text \<open>
  Claim C7, as the code has it: a string with a token \<open>k=v\<close> whose key \<open>k\<close> is not in the
  table, or whose value \<open>v\<close> is rejected by \<open>float\<close> while no later token gives the same
  key again, raises \<open>ValueError\<close> with the message of line 139.
\<close>

theorem lifetime_rejects_bad_tokens:
  assumes toks: "tokens s = ts1 @ t # ts2"
    and t: "split_on CHR ''='' t = [k, v]"
    and bad: "map_of to_secs k = None
        \<or> (float v = None \<and> (\<forall>t' \<in> set ts2. \<forall>v'. split_on CHR ''='' t' \<noteq> [k, v']))"
  shows "parse_lifetime float s = Inl (ValueError lifetime_msg)"
proof -
  from toks have ne: "s \<noteq> []" by (auto simp: tokens_nil)
  have "lifetime_try float s \<noteq> Inr x" for x
  proof
    assume "lifetime_try float s = Inr x"
    then obtain d d' where d: "dict_of [] (map (split_on CHR ''='') (tokens s)) = Inr d"
      and d': "valmap float d = Inr d'" and sm: "sum_secs 0 d' = Inr x"
      using lifetime_try_ok by blast
    let ?ps1 = "map (split_on CHR ''='') ts1" and ?ps2 = "map (split_on CHR ''='') ts2"
    from d toks t have "dict_of [] (?ps1 @ [[k, v]] @ ?ps2) = Inr d" by simp
    then obtain d1 where d1: "dict_of [] ?ps1 = Inr d1"
      and d2: "dict_of (setitem d1 k v) ?ps2 = Inr d"
      by (auto simp: dict_of_append split: sum.splits)
    have kin: "k \<in> fst ` set d"
      using d2 by (rule dict_of_keeps_key) (simp add: setitem_keys)
    from bad show False
    proof
      assume "map_of to_secs k = None"
      moreover from valmap_ok [OF d'] kin have "k \<in> fst ` set d'"
        by (metis set_map)
      ultimately show False using sum_secs_ok [OF sm] by blast
    next
      assume b: "float v = None \<and> (\<forall>t' \<in> set ts2. \<forall>v'. split_on CHR ''='' t' \<noteq> [k, v'])"
      then have "\<forall>p \<in> set ?ps2. \<forall>v'. p \<noteq> [k, v']" by auto
      with d2 setitem_in have "(k, v) \<in> set d" by (rule dict_of_keeps_pair)
      with valmap_ok [OF d'] b show False by auto
    qed
  qed
  then obtain e where "lifetime_try float s = Inl e"
    by (cases "lifetime_try float s") auto
  with ne lifetime_try_error [OF this] show ?thesis
    by (simp add: parse_lifetime_def)
qed

lemma tokens_x5: "tokens ''x=5'' = [] @ ''x=5'' # []"
  by (simp add: tokens_def replace_commas_def isspace_def nonspace_def)

lemma tokens_h1_dabc: "tokens ''h=1 d=abc'' = [''h=1''] @ ''d=abc'' # []"
  by (simp add: tokens_def replace_commas_def isspace_def nonspace_def)

lemma float_abc: "float_lit ''abc'' = None"
  by (simp add: float_lit_def take_sign_def take_fraction_def isdigit_def digit_of_def)

theorem lifetime_rejects_bad_tokens_witness:
  "parse_lifetime float_lit ''x=5'' = Inl (ValueError lifetime_msg)
   \<and> parse_lifetime float_lit ''h=1 d=abc'' = Inl (ValueError lifetime_msg)"
proof
  have "map_of to_secs ''x'' = None" by (simp add: to_secs_def)
  then show "parse_lifetime float_lit ''x=5'' = Inl (ValueError lifetime_msg)"
    using lifetime_rejects_bad_tokens [OF tokens_x5, of "''x''" "''5''" float_lit] by simp
  have "float_lit ''abc'' = None \<and> (\<forall>t' \<in> set []. \<forall>v'. split_on CHR ''='' t' \<noteq> [''d'', v'])"
    by (simp add: float_abc)
  then show "parse_lifetime float_lit ''h=1 d=abc'' = Inl (ValueError lifetime_msg)"
    using lifetime_rejects_bad_tokens [OF tokens_h1_dabc, of "''d''" "''abc''" float_lit] by simp
qed

text \<open>
  Claim C7, as it is stated, fails when a later token gives the key again: the
  dictionary keeps the last value of a key only, so in \<open>"d=abc d=1"\<close> the value \<open>abc\<close> is
  never converted and the string parses to 86400 seconds.
\<close>

theorem overridden_value_is_ignored:
  "float_lit ''abc'' = None
   \<and> tokens ''d=abc d=1'' = [''d=abc'', ''d=1'']
   \<and> split_on CHR ''='' ''d=abc'' = [''d'', ''abc'']
   \<and> parse_lifetime float_lit ''d=abc d=1'' = Inr (Some 86400)"
  by (simp add: parse_lifetime_def lifetime_try_def pairs_dict_def tokens_def replace_commas_def
       isspace_def nonspace_def to_secs_def
       float_lit_def take_sign_def take_fraction_def isdigit_def digit_of_def scale10_def)

text \<open>
  In general, the value of a token whose key is given again by a later token has no
  effect: replacing it by any other value leaves the result of the parse as it is.
\<close>

lemma setitem_twice: "setitem (setitem d k v) k w = setitem d k w"
  by (induction d k v rule: setitem.induct) auto

lemma setitem_swap:
  "k \<in> fst ` set d \<Longrightarrow> k1 \<noteq> k \<Longrightarrow>
   setitem (setitem d k x) k1 v1 = setitem (setitem d k1 v1) k x"
  by (induction d k x rule: setitem.induct) auto

lemma dict_of_overridden:
  "k \<in> fst ` set d \<Longrightarrow> [k, w] \<in> set ps \<Longrightarrow> dict_of (setitem d k x) ps = dict_of d ps"
proof (induction d ps rule: dict_of.induct)
  case (1 d)
  then show ?case by simp
next
  case (2 d p ps)
  show ?case
  proof (cases "\<exists>k1 v1. p = [k1, v1]")
    case False
    then show ?thesis by (auto split: list.splits)
  next
    case True
    then obtain k1 v1 where p: "p = [k1, v1]" by blast
    show ?thesis
    proof (cases "k1 = k")
      case True
      with p show ?thesis by (simp add: setitem_twice)
    next
      case False
      with "2.prems"(2) p have "[k, w] \<in> set ps" by auto
      moreover from "2.prems"(1) have "k \<in> fst ` set (setitem d k1 v1)"
        by (simp add: setitem_keys)
      ultimately have "dict_of (setitem (setitem d k1 v1) k x) ps = dict_of (setitem d k1 v1) ps"
        using "2.IH" p by blast
      moreover from "2.prems"(1) False
      have "setitem (setitem d k x) k1 v1 = setitem (setitem d k1 v1) k x"
        by (rule setitem_swap)
      ultimately show ?thesis using p by simp
    qed
  qed
qed

lemma dict_of_value_overridden:
  assumes "[k, w] \<in> set ps2"
  shows "dict_of d0 (ps1 @ [k, v] # ps2) = dict_of d0 (ps1 @ [k, v'] # ps2)"
proof (cases "dict_of d0 ps1")
  case (Inl e)
  then show ?thesis by (simp add: dict_of_append)
next
  case (Inr d1)
  have k: "k \<in> fst ` set (setitem d1 k v)" by (simp add: setitem_keys)
  have "dict_of (setitem d1 k v') ps2 = dict_of (setitem (setitem d1 k v) k v') ps2"
    by (simp add: setitem_twice)
  also have "\<dots> = dict_of (setitem d1 k v) ps2"
    using k assms by (rule dict_of_overridden)
  finally show ?thesis using Inr by (simp add: dict_of_append)
qed

lemma overridden_value_has_no_effect:
  assumes "tokens s = ts1 @ t # ts2" and "tokens s' = ts1 @ u # ts2"
    and "split_on CHR ''='' t = [k, v]" and "split_on CHR ''='' u = [k, v']"
    and "t' \<in> set ts2" and "split_on CHR ''='' t' = [k, w]"
  shows "parse_lifetime float s' = parse_lifetime float s"
proof -
  from assms(1,2) have ne: "s \<noteq> []" "s' \<noteq> []" by (auto simp: tokens_nil)
  from assms(5,6) have "[k, w] \<in> set (map (split_on CHR ''='') ts2)" by force
  then have "dict_of [] (map (split_on CHR ''='') ts1 @ [k, v'] # map (split_on CHR ''='') ts2)
           = dict_of [] (map (split_on CHR ''='') ts1 @ [k, v] # map (split_on CHR ''='') ts2)"
    by (rule dict_of_value_overridden)
  with assms(1-4) have "pairs_dict float s' = pairs_dict float s"
    by (simp add: pairs_dict_def)
  with ne show ?thesis by (simp add: parse_lifetime_def lifetime_try_def)
qed

end
